theory Spec2Isabelle
  imports Main "HOL-Library.AList"
begin

section \<open>Python values\<close>

text \<open>
  The handler works on JSON-shaped data throughout: the inbound SNS envelope, the
  message attributes, the configuration dictionary, the request payloads. A value is
  \<open>None\<close>, a boolean, an integer, a string, a list or a dictionary with string keys.
  A dictionary is an association list in insertion order (the order \<open>str()\<close> prints).
  Strings are lists of 8-bit characters; floating-point numbers are left out.
\<close>

datatype pyval =
    PNone
  | PBool bool
  | PInt int
  | PStr string
  | PList "pyval list"
  | PDict "(string \<times> pyval) list"

text \<open>
  Exceptions are values. \<open>Exception msg\<close> is the built-in \<open>Exception\<close> raised with a
  message; \<open>Raised cls\<close> is an exception of a library class (botocore's
  \<open>ClientError\<close>, a \<open>requests\<close> transport error, a JSON decoding error), named by
  its class. None of the latter derives from \<open>KeyError\<close>.
\<close>

datatype error =
    KeyError
  | IndexError
  | TypeError
  | AttributeError
  | HTTPError
  | Exception string
  | Raised string

subsection \<open>Truth value, subscription, methods\<close>

fun truthy :: "pyval \<Rightarrow> bool" where
  "truthy PNone = False"
| "truthy (PBool b) = b"
| "truthy (PInt i) = (i \<noteq> 0)"
| "truthy (PStr s) = (s \<noteq> [])"
| "truthy (PList xs) = (xs \<noteq> [])"
| "truthy (PDict kvs) = (kvs \<noteq> [])"

text \<open>\<open>v[key]\<close> for a string key: only a dictionary can answer; a missing key raises.\<close>

fun getitem :: "pyval \<Rightarrow> string \<Rightarrow> error + pyval" where
  "getitem (PDict kvs) key =
     (case map_of kvs key of None \<Rightarrow> Inl KeyError | Some v \<Rightarrow> Inr v)"
| "getitem v key = Inl TypeError"

text \<open>
  \<open>v[0]\<close>: the first element of a list, the first character of a string; a dictionary
  with string keys has no key \<open>0\<close>.
\<close>

fun getitem0 :: "pyval \<Rightarrow> error + pyval" where
  "getitem0 (PList xs) = (case xs of [] \<Rightarrow> Inl IndexError | x # _ \<Rightarrow> Inr x)"
| "getitem0 (PStr s) = (case s of [] \<Rightarrow> Inl IndexError | c # _ \<Rightarrow> Inr (PStr [c]))"
| "getitem0 (PDict kvs) = Inl KeyError"
| "getitem0 v = Inl TypeError"

text \<open>\<open>v.get(key, default)\<close>: a method of dictionaries only.\<close>

fun dict_get :: "pyval \<Rightarrow> string \<Rightarrow> pyval \<Rightarrow> error + pyval" where
  "dict_get (PDict kvs) key dflt =
     (case map_of kvs key of None \<Rightarrow> Inr dflt | Some v \<Rightarrow> Inr v)"
| "dict_get v key dflt = Inl AttributeError"

text \<open>
  \<open>s.rstrip("/")\<close> and \<open>s.split("/")\<close> on strings. The segments of \<open>c # cs\<close> are
  those of \<open>cs\<close>, with \<open>c\<close> put before the first one unless \<open>c\<close> is the separator.
\<close>

definition rstrip :: "string \<Rightarrow> string" where
  "rstrip s = rev (dropWhile (\<lambda>c. c = CHR ''/'') (rev s))"

fun str_split :: "string \<Rightarrow> string list" where
  "str_split [] = [[]]"
| "str_split (c # cs) =
     (if c = CHR ''/'' then [] # str_split cs
      else (case str_split cs of
              [] \<Rightarrow> [[c]]
            | segment # segments \<Rightarrow> (c # segment) # segments))"

fun py_rstrip :: "pyval \<Rightarrow> error + string" where
  "py_rstrip (PStr s) = Inr (rstrip s)"
| "py_rstrip v = Inl AttributeError"

fun py_split :: "pyval \<Rightarrow> error + string list" where
  "py_split (PStr s) = Inr (str_split s)"
| "py_split v = Inl AttributeError"

text \<open>Iteration: the elements of a list, the keys of a dictionary, the characters of a string.\<close>

fun py_iter :: "pyval \<Rightarrow> error + pyval list" where
  "py_iter (PList xs) = Inr xs"
| "py_iter (PDict kvs) = Inr (map (\<lambda>kv. PStr (fst kv)) kvs)"
| "py_iter (PStr s) = Inr (map (\<lambda>c. PStr [c]) s)"
| "py_iter v = Inl TypeError"

subsection \<open>Equality\<close>

text \<open>
  \<open>==\<close> compares structurally; a boolean equals the integer 0 or 1 it stands for, and
  dictionaries are compared key by key, whatever their order.
\<close>

fun py_eq :: "pyval \<Rightarrow> pyval \<Rightarrow> bool" where
  "py_eq PNone PNone = True"
| "py_eq (PBool a) (PBool b) = (a = b)"
| "py_eq (PBool a) (PInt j) = ((if a then 1 else 0) = j)"
| "py_eq (PInt i) (PBool b) = (i = (if b then 1 else 0))"
| "py_eq (PInt i) (PInt j) = (i = j)"
| "py_eq (PStr s) (PStr t) = (s = t)"
| "py_eq (PList xs) (PList ys) = list_all2 py_eq xs ys"
| "py_eq (PDict kvs) (PDict lws) =
     (length kvs = length lws \<and>
      list_all (\<lambda>kv. case map_of lws (fst kv) of
                         None \<Rightarrow> False
                       | Some w \<Rightarrow> py_eq (snd kv) w) kvs)"
| "py_eq v w = False"

subsection \<open>Formatting\<close>

text \<open>
  An f-string field \<open>{v}\<close> inserts \<open>str(v)\<close>: a string as it is, any other value by its
  \<open>repr\<close>. The \<open>repr\<close> of a string quotes it (with double quotes when it holds a single
  quote and no double quote) and escapes the quote, the backslash and what does not
  print.
\<close>

definition digit_char :: "nat \<Rightarrow> char" where
  "digit_char n = ''0123456789abcdef'' ! n"

fun nat_str :: "nat \<Rightarrow> string" where
  "nat_str n = (if n < 10 then [digit_char n] else nat_str (n div 10) @ [digit_char (n mod 10)])"

declare nat_str.simps [simp del]

definition int_str :: "int \<Rightarrow> string" where
  "int_str i = (if i < 0 then CHR ''-'' # nat_str (nat (- i)) else nat_str (nat i))"

definition printable :: "char \<Rightarrow> bool" where
  "printable c = (let n = (of_char c :: nat) in (32 \<le> n \<and> n < 127) \<or> (161 \<le> n \<and> n \<noteq> 173))"

definition escape_char :: "char \<Rightarrow> char \<Rightarrow> string" where
  "escape_char q c =
     (if c = q \<or> c = CHR 0x5C then [CHR 0x5C, c]
      else if c = CHR 0x09 then [CHR 0x5C, CHR ''t'']
      else if c = CHR 0x0A then [CHR 0x5C, CHR ''n'']
      else if c = CHR 0x0D then [CHR 0x5C, CHR ''r'']
      else if printable c then [c]
      else [CHR 0x5C, CHR ''x'', digit_char (of_char c div 16), digit_char (of_char c mod 16)])"

definition str_repr :: "string \<Rightarrow> string" where
  "str_repr s =
     (let q = (if CHR 0x27 \<in> set s \<and> CHR 0x22 \<notin> set s then CHR 0x22 else CHR 0x27)
      in q # concat (map (escape_char q) s) @ [q])"

fun join :: "string \<Rightarrow> string list \<Rightarrow> string" where
  "join sep [] = []"
| "join sep [x] = x"
| "join sep (x # y # ys) = x @ sep @ join sep (y # ys)"

primrec py_repr :: "pyval \<Rightarrow> string" where
  "py_repr PNone = ''None''"
| "py_repr (PBool b) = (if b then ''True'' else ''False'')"
| "py_repr (PInt i) = int_str i"
| "py_repr (PStr s) = str_repr s"
| "py_repr (PList xs) = ''['' @ join '', '' (map py_repr xs) @ '']''"
| "py_repr (PDict kvs) =
     ''{'' @ join '', '' (map (\<lambda>kr. str_repr (fst kr) @ '': '' @ snd kr)
                              (map (map_prod id py_repr) kvs)) @ ''}''"

fun py_str :: "pyval \<Rightarrow> string" where
  "py_str (PStr s) = s"
| "py_str v = py_repr v"

section \<open>The world outside the handler\<close>

text \<open>
  \<open>getattr(zodiac_client, method)\<close> is called with the method names \<open>'get'\<close> and
  \<open>'post'\<close> only. A request is what the session sends: the method, the URL and the
  JSON body when one is passed. A response carries its status code and its JSON body.
\<close>

datatype http_method = GET | POST

record http_request =
  req_method :: http_method
  req_url :: string
  req_json :: "pyval option"

record http_response =
  status_code :: nat
  resp_body :: pyval

text \<open>The keyword arguments of one \<open>client.publish\<close> call.\<close>

record publish_request =
  TopicArn :: pyval
  Message :: string
  MessageAttributes :: pyval

text \<open>
  The state an invocation acts on: the remote API (its answer to a request may depend on
  the requests it has seen), the requests sent so far, the publish calls made so far, the
  messages logged at level INFO, and the source of random identifiers. Messages logged at
  level DEBUG are dropped by the logger's level and are not recorded.
\<close>

record world =
  http_server :: "http_request list \<Rightarrow> http_request \<Rightarrow> error + http_response"
  requests :: "http_request list"
  published :: "publish_request list"
  info_log :: "string list"
  uuid4 :: "nat \<Rightarrow> string"
  uuids_drawn :: nat

text \<open>
  What the handler reads from its platform and never changes: the process environment,
  whether a client for a resource is obtained under the role of \<open>AWS_ROLE_ARN\<close>, the
  Parameter Store's answer for a path, and the outcome of a publish call.
\<close>

record aws =
  environ :: "string \<rightharpoonup> string"
  role_client :: "string option \<Rightarrow> string \<Rightarrow> error option"
  parameters_by_path :: "string \<Rightarrow> error + pyval"
  sns_publish :: "publish_request \<Rightarrow> error option"

subsection \<open>Computations that may raise\<close>

text \<open>
  A pure step returns \<open>error + 'a\<close>; a step with effects also returns the world it
  leaves. An exception ends the sequence and keeps the effects made before it.
\<close>

definition bindE :: "error + 'a \<Rightarrow> ('a \<Rightarrow> error + 'b) \<Rightarrow> error + 'b" where
  "bindE r f = (case r of Inl e \<Rightarrow> Inl e | Inr x \<Rightarrow> f x)"

type_synonym 'a py = "world \<Rightarrow> (error + 'a) \<times> world"

definition ret :: "'a \<Rightarrow> 'a py" where
  "ret x = (\<lambda>w. (Inr x, w))"

definition raise :: "error \<Rightarrow> 'a py" where
  "raise e = (\<lambda>w. (Inl e, w))"

definition lift :: "error + 'a \<Rightarrow> 'a py" where
  "lift r = (\<lambda>w. (r, w))"

definition bnd :: "'a py \<Rightarrow> ('a \<Rightarrow> 'b py) \<Rightarrow> 'b py" where
  "bnd m f = (\<lambda>w. case m w of (Inl e, w') \<Rightarrow> (Inl e, w') | (Inr x, w') \<Rightarrow> f x w')"

text \<open>\<open>try: body except KeyError: handler\<close>.\<close>

definition except_KeyError :: "'a py \<Rightarrow> 'a py \<Rightarrow> 'a py" where
  "except_KeyError body handler =
     (\<lambda>w. case body w of
            (Inl e, w') \<Rightarrow> (if e = KeyError then handler w' else (Inl e, w'))
          | (Inr x, w') \<Rightarrow> (Inr x, w'))"

definition info :: "string \<Rightarrow> unit py" where
  "info msg = (\<lambda>w. (Inr (), w\<lparr>info_log := info_log w @ [msg]\<rparr>))"

section \<open>The module\<close>

definition environ_get :: "aws \<Rightarrow> string \<Rightarrow> pyval" where
  "environ_get a name = (case environ a name of None \<Rightarrow> PNone | Some s \<Rightarrow> PStr s)"

definition full_config_path :: "aws \<Rightarrow> string" where
  "full_config_path a =
     ''/'' @ py_str (environ_get a ''ENV'') @ ''/'' @ py_str (environ_get a ''APP_CONFIG_PATH'')"

definition NEXT_SERVICE_MAP :: "(string \<times> string) list" where
  "NEXT_SERVICE_MAP = [(''ursa_major'', ''fornax''), (''webhook'', ''aquarius'')]"

text \<open>A client is known by the resource it was made for.\<close>

definition get_client_with_role :: "aws \<Rightarrow> string \<Rightarrow> error + string" where
  "get_client_with_role a resource =
     (case role_client a (environ a ''AWS_ROLE_ARN'') resource of
        Some e \<Rightarrow> Inl e
      | None \<Rightarrow> Inr resource)"

subsection \<open>get_config\<close>

text \<open>One pass of the loop body: the name's last segment and the value of a parameter.\<close>

definition param_entry :: "pyval \<Rightarrow> error + string \<times> pyval" where
  "param_entry param =
     bindE (dict_get param ''Name'' PNone) (\<lambda>name.
     bindE (py_split name) (\<lambda>param_path_array.
     bindE (if param_path_array = [] then Inl IndexError else Inr (last param_path_array))
       (\<lambda>section_name.
     bindE (dict_get param ''Value'' PNone) (\<lambda>v.
     Inr (section_name, v)))))"

text \<open>
  The loop stores into \<open>configuration\<close> as it goes; when a pass raises, the dictionary
  keeps what the passes before it stored.
\<close>

fun load_params ::
  "pyval list \<Rightarrow> (string \<times> pyval) list \<Rightarrow> error option \<times> (string \<times> pyval) list" where
  "load_params [] configuration = (None, configuration)"
| "load_params (param # params) configuration =
     (case param_entry param of
        Inl e \<Rightarrow> (Some e, configuration)
      | Inr (section_name, v) \<Rightarrow>
          load_params params (AList.update section_name v configuration))"

text \<open>The \<open>try\<close> block: the exception it ends with, if any, and the dictionary then.\<close>

definition get_config_try ::
  "aws \<Rightarrow> string \<Rightarrow> error option \<times> (string \<times> pyval) list" where
  "get_config_try a ssm_parameter_path =
     (case get_client_with_role a ''ssm'' of
        Inl e \<Rightarrow> (Some e, [])
      | Inr ssm_client \<Rightarrow>
          (case parameters_by_path a ssm_parameter_path of
             Inl e \<Rightarrow> (Some e, [])
           | Inr param_details \<Rightarrow>
               (case bindE (dict_get param_details ''Parameters'' (PList [])) py_iter of
                  Inl e \<Rightarrow> (Some e, [])
                | Inr params \<Rightarrow> load_params params [])))"

text \<open>
  \<open>except BaseException\<close> prints and goes on; \<open>finally: return configuration\<close> returns
  the dictionary on every path.
\<close>

definition get_config :: "aws \<Rightarrow> string \<Rightarrow> error + pyval" where
  "get_config a ssm_parameter_path =
     (case get_config_try a ssm_parameter_path of
        (Some e, configuration) \<Rightarrow> Inr (PDict configuration)
      | (None, configuration) \<Rightarrow> Inr (PDict configuration))"

subsection \<open>send_http_request\<close>

text \<open>
  The function has three positional parameters and none has a default. The third
  argument is an option here: \<open>Some d\<close> for a call that passes \<open>d\<close> as \<open>data\<close>, and
  \<open>None\<close> for a call that passes two arguments only, which raises \<open>TypeError\<close> before
  the body runs. The body sends the request (with a JSON body when \<open>data\<close> is true),
  lets \<open>raise_for_status\<close> raise on a 4xx or 5xx status, and ends without a \<open>return\<close>
  statement: the value of a call that completes is Python's \<open>None\<close>.
\<close>

definition send_http_request :: "string \<Rightarrow> http_method \<Rightarrow> pyval option \<Rightarrow> pyval py" where
  "send_http_request url meth data =
     (\<lambda>w. case data of
            None \<Rightarrow> (Inl TypeError, w)
          | Some d \<Rightarrow>
              (let req = \<lparr>req_method = meth, req_url = url,
                          req_json = (if truthy d then Some d else None)\<rparr>;
                   w' = w\<lparr>requests := requests w @ [req]\<rparr>
               in case http_server w (requests w) req of
                    Inl e \<Rightarrow> (Inl e, w')
                  | Inr resp \<Rightarrow>
                      if 400 \<le> status_code resp \<and> status_code resp < 600
                      then (Inl HTTPError, w')
                      else (Inr PNone, w')))"

subsection \<open>matching_events\<close>

text \<open>
  The module's functions find \<open>send_http_request\<close> by its global name when they call
  it (the test-suite rebinds that name). They are written over any binding \<open>http\<close> of
  the name; the program is the instance at the module's own function.
\<close>

type_synonym http_fn = "string \<Rightarrow> http_method \<Rightarrow> pyval option \<Rightarrow> pyval py"

text \<open>A list comprehension with a condition that may raise.\<close>

fun comprehension :: "('a \<Rightarrow> error + bool) \<Rightarrow> 'a list \<Rightarrow> error + 'a list" where
  "comprehension cond [] = Inr []"
| "comprehension cond (e # es) =
     bindE (cond e) (\<lambda>b.
     bindE (comprehension cond es) (\<lambda>r.
     Inr (if b then e # r else r)))"

text \<open>\<open>e['service'] == service_name and e['outcome'] == outcome\<close>, left to right.\<close>

definition service_and_outcome :: "pyval \<Rightarrow> pyval \<Rightarrow> pyval \<Rightarrow> error + bool" where
  "service_and_outcome service_name outcome e =
     bindE (getitem e ''service'') (\<lambda>s.
     if py_eq s service_name
     then bindE (getitem e ''outcome'') (\<lambda>oc. Inr (py_eq oc outcome))
     else Inr False)"

definition service_only :: "pyval \<Rightarrow> pyval \<Rightarrow> error + bool" where
  "service_only service_name e =
     bindE (getitem e ''service'') (\<lambda>s. Inr (py_eq s service_name))"

definition matching_events_via ::
  "http_fn \<Rightarrow> pyval \<Rightarrow> pyval \<Rightarrow> string \<Rightarrow> pyval \<Rightarrow> pyval list py" where
  "matching_events_via http package_id service_name baseurl outcome =
     bnd (http (baseurl @ ''/packages/'' @ py_str package_id @ ''/events'') GET None)
       (\<lambda>package_events.
     lift (bindE (py_iter package_events) (\<lambda>es.
           if truthy outcome
           then comprehension (service_and_outcome service_name outcome) es
           else comprehension (service_only service_name) es)))"

definition matching_events :: "pyval \<Rightarrow> pyval \<Rightarrow> string \<Rightarrow> pyval \<Rightarrow> pyval list py" where
  "matching_events = matching_events_via send_http_request"

subsection \<open>update_package\<close>

text \<open>
  \<open>json.loads\<close> is the parameter \<open>loads\<close>: what it returns or raises for an argument.
  The payload is built first, then the URL, then the request is sent; the function
  returns \<open>None\<close>.
\<close>

definition update_package_via ::
  "http_fn \<Rightarrow> (pyval \<Rightarrow> error + pyval) \<Rightarrow> pyval \<Rightarrow> pyval \<Rightarrow> unit py" where
  "update_package_via http loads attributes config =
     bnd (lift (bindE (getitem attributes ''package_id'') (\<lambda>a. getitem a ''Value'')))
       (\<lambda>package_id.
     bnd (lift (dict_get attributes ''package_data'' PNone)) (\<lambda>present.
     bnd (lift (if truthy present
                then bindE (getitem attributes ''package_data'') (\<lambda>a.
                     bindE (getitem a ''Value'') (\<lambda>raw.
                     bindE (loads raw) (\<lambda>parsed.
                     Inr (AList.update ''package_data'' parsed [(''package_id'', package_id)]))))
                else Inr [(''package_id'', package_id)])) (\<lambda>package_data.
     bnd (lift (bindE (getitem config ''ZODIAC_BASEURL'') py_rstrip)) (\<lambda>base.
     bnd (http (base @ ''/packages'') POST (Some (PDict package_data))) (\<lambda>_.
     ret ())))))"


subsection \<open>construct_event_id and update_events\<close>

text \<open>\<open>str(uuid.uuid4())\<close>: the next identifier of the world's source.\<close>

definition construct_event_id :: "string py" where
  "construct_event_id =
     (\<lambda>w. (Inr (uuid4 w (uuids_drawn w)), w\<lparr>uuids_drawn := Suc (uuids_drawn w)\<rparr>))"

text \<open>
  The lookup passes \<open>attributes['package_id']\<close> and \<open>attributes['service']\<close>, the
  attribute objects themselves, and no outcome (the default \<open>None\<close>).
\<close>

definition update_events_via :: "http_fn \<Rightarrow> pyval \<Rightarrow> pyval \<Rightarrow> unit py" where
  "update_events_via http attributes config =
     bnd (lift (getitem attributes ''package_id'')) (\<lambda>package_attr.
     bnd (lift (getitem attributes ''service'')) (\<lambda>service_attr.
     bnd (lift (bindE (getitem config ''ZODIAC_BASEURL'') py_rstrip)) (\<lambda>baseurl.
     bnd (matching_events_via http package_attr service_attr baseurl PNone)
       (\<lambda>package_events.
     if length package_events \<le> 1
     then
       bnd (lift (bindE (getitem attributes ''outcome'') (\<lambda>a. getitem a ''Value''))) (\<lambda>oc.
       bnd (lift (bindE (getitem attributes ''service'') (\<lambda>a. getitem a ''Value''))) (\<lambda>sv.
       bnd (lift (bindE (getitem attributes ''package_id'') (\<lambda>a. getitem a ''Value''))) (\<lambda>pk.
       bnd (if length package_events = 1
            then lift (getitem (package_events ! 0) ''identifier'')
            else bnd construct_event_id (\<lambda>i. ret (PStr i))) (\<lambda>identifier.
       bnd (lift (bindE (getitem config ''ZODIAC_BASEURL'') py_rstrip)) (\<lambda>base.
       bnd (http (base @ ''/events'') POST
              (Some (PDict (AList.update ''identifier'' identifier
                 [(''outcome'', oc), (''service'', sv), (''package'', pk)])))) (\<lambda>_.
       ret ()))))))
     else
       raise (Exception (''Got more than one matching event for package ''
                @ py_str package_attr @ '', found ''
                @ nat_str (length package_events)))))))"

definition update_events :: "pyval \<Rightarrow> pyval \<Rightarrow> unit py" where
  "update_events = update_events_via send_http_request"

subsection \<open>send_next_service_message\<close>

text \<open>
  \<open>NEXT_SERVICE_MAP[current_service]\<close>: a list or a dictionary cannot be hashed; any
  other value is looked up, and only the two service names are there.
\<close>

fun next_service_lookup :: "pyval \<Rightarrow> error + string" where
  "next_service_lookup (PStr s) =
     (case map_of NEXT_SERVICE_MAP s of None \<Rightarrow> Inl KeyError | Some n \<Rightarrow> Inr n)"
| "next_service_lookup (PList xs) = Inl TypeError"
| "next_service_lookup (PDict kvs) = Inl TypeError"
| "next_service_lookup v = Inl KeyError"

text \<open>A call of \<open>client.publish\<close> is recorded whether it succeeds or raises.\<close>

definition publish :: "aws \<Rightarrow> publish_request \<Rightarrow> unit py" where
  "publish a req =
     (\<lambda>w. case sns_publish a req of
            Some e \<Rightarrow> (Inl e, w\<lparr>published := published w @ [req]\<rparr>)
          | None \<Rightarrow> (Inr (), w\<lparr>published := published w @ [req]\<rparr>))"

definition string_attribute :: "pyval \<Rightarrow> pyval" where
  "string_attribute v = PDict [(''DataType'', PStr ''String''), (''StringValue'', v)]"

text \<open>
  The whole body stands in the \<open>try\<close> block: the lookup in the map, the client, the
  lookup of the topic in the configuration and the publish call.
\<close>

definition send_next_service_message :: "aws \<Rightarrow> pyval \<Rightarrow> pyval \<Rightarrow> pyval \<Rightarrow> unit py" where
  "send_next_service_message a current_service package_id config =
     except_KeyError
       (bnd (lift (next_service_lookup current_service)) (\<lambda>next_service.
        bnd (info (''Starting service '' @ next_service)) (\<lambda>_.
        bnd (lift (get_client_with_role a ''sns'')) (\<lambda>client.
        bnd (lift (getitem config ''SERVICE_START_SNS_TOPIC'')) (\<lambda>topic.
        bnd (publish a
               \<lparr>TopicArn = topic,
                Message = ''Start service '' @ next_service @ '' for package ''
                          @ py_str package_id,
                MessageAttributes = PDict
                  [(''package_id'', string_attribute package_id),
                   (''requested_status'', string_attribute (PStr ''START'')),
                   (''service'', string_attribute (PStr next_service))]\<rparr>) (\<lambda>_.
        info (''Message to start service '' @ next_service @ '' for package ''
              @ py_str package_id @ '' sent.'')))))))
       (info (''No next service found for '' @ py_str current_service))"

subsection \<open>lambda_handler\<close>

definition lambda_handler_via ::
  "http_fn \<Rightarrow> (pyval \<Rightarrow> error + pyval) \<Rightarrow> aws \<Rightarrow> pyval \<Rightarrow> unit py" where
  "lambda_handler_via http loads a event =
     bnd (info ''Message received.'') (\<lambda>_.
     bnd (lift (get_config a (full_config_path a))) (\<lambda>config.
     bnd (lift (bindE (getitem event ''Records'') (\<lambda>records.
                bindE (getitem0 records) (\<lambda>record0.
                bindE (getitem record0 ''Sns'') (\<lambda>sns.
                getitem sns ''MessageAttributes''))))) (\<lambda>attributes.
     bnd (lift (bindE (getitem attributes ''package_id'') (\<lambda>a. getitem a ''Value'')))
       (\<lambda>package_id.
     bnd (lift (bindE (getitem attributes ''service'') (\<lambda>a. getitem a ''Value'')))
       (\<lambda>service.
     bnd (lift (bindE (getitem config ''ZODIAC_BASEURL'') py_rstrip)) (\<lambda>baseurl.
     bnd (lift (bindE (getitem attributes ''outcome'') (\<lambda>a. getitem a ''Value'')))
       (\<lambda>outcome.
     bnd (matching_events_via http package_id service baseurl outcome) (\<lambda>found.
     if length found = 0
     then
       bnd (update_package_via http loads attributes config) (\<lambda>_.
       bnd (update_events_via http attributes config) (\<lambda>_.
       bnd (lift (bindE (dict_get attributes ''outcome'' (PDict []))
                    (\<lambda>a. dict_get a ''Value'' PNone))) (\<lambda>declared.
       if py_eq declared (PStr ''SUCCESS'')
       then
         bnd (lift (bindE (getitem attributes ''service'') (\<lambda>a. getitem a ''Value'')))
           (\<lambda>current_service.
         bnd (lift (bindE (getitem attributes ''package_id'') (\<lambda>a. getitem a ''Value'')))
           (\<lambda>pid.
         send_next_service_message a current_service pid config))
       else ret ())))
     else info ''Duplicate event found''))))))))"

definition lambda_handler :: "(pyval \<Rightarrow> error + pyval) \<Rightarrow> aws \<Rightarrow> pyval \<Rightarrow> unit py" where
  "lambda_handler = lambda_handler_via send_http_request"

section \<open>Reference notions and sample inputs\<close>

text \<open>The final segment of a path: what follows its last \<open>/\<close>.\<close>

definition last_segment :: "string \<Rightarrow> string" where
  "last_segment s = rev (takeWhile (\<lambda>c. c \<noteq> CHR ''/'') (rev s))"

text \<open>
  The binding of \<open>send_http_request\<close> under which the test-suite runs the callers: a
  mock that records the call and returns its \<open>return_value\<close>.
\<close>

definition mock_http :: "pyval \<Rightarrow> http_fn" where
  "mock_http return_value url meth data =
     (\<lambda>w. (Inr return_value,
            w\<lparr>requests := requests w @
                 [\<lparr>req_method = meth, req_url = url, req_json = data\<rparr>]\<rparr>))"

text \<open>A fragment of \<open>json.loads\<close>, enough for the sample inputs.\<close>

definition sample_loads :: "pyval \<Rightarrow> error + pyval" where
  "sample_loads raw =
     (if raw = PStr ''null'' then Inr PNone
      else if raw = PStr ''[]'' then Inr (PList [])
      else Inl (Raised ''JSONDecodeError''))"

text \<open>
  A notification that the service \<open>ursa_major\<close> succeeded for a package, as SNS delivers
  it, and the configuration the handler runs with.
\<close>

definition sample_attributes :: pyval where
  "sample_attributes = PDict
     [(''package_id'', PDict [(''Type'', PStr ''String''),
                              (''Value'', PStr ''20f8da26e268418ead4aa2365f816a08'')]),
      (''service'', PDict [(''Type'', PStr ''String''), (''Value'', PStr ''ursa_major'')]),
      (''outcome'', PDict [(''Type'', PStr ''String''), (''Value'', PStr ''SUCCESS'')])]"

definition sample_event :: pyval where
  "sample_event = PDict
     [(''Records'', PList [PDict [(''Sns'', PDict [(''MessageAttributes'', sample_attributes)])]])]"

definition sample_config :: pyval where
  "sample_config = PDict
     [(''ZODIAC_BASEURL'', PStr ''https://zodiac.rockarch.org/api''),
      (''SERVICE_START_SNS_TOPIC'', PStr ''arn:aws:sns:us-east-1:123456789012:start_service'')]"

text \<open>
  A platform on which every client is obtained and every publish call succeeds; the
  Parameter Store holds the two keys of \<open>sample_config\<close>, the base URL as \<open>base\<close>.
\<close>

definition sample_aws :: "string \<Rightarrow> aws" where
  "sample_aws base =
     \<lparr>environ = [''ENV'' \<mapsto> ''dev'', ''APP_CONFIG_PATH'' \<mapsto> ''digitized_av_trigger''],
      role_client = (\<lambda>arn resource. None),
      parameters_by_path = (\<lambda>path. Inr (PDict [(''Parameters'', PList
         [PDict [(''Name'', PStr (path @ ''/ZODIAC_BASEURL'')), (''Value'', PStr base)],
          PDict [(''Name'', PStr (path @ ''/SERVICE_START_SNS_TOPIC'')),
                 (''Value'', PStr ''arn:aws:sns:us-east-1:123456789012:start_service'')]])])),
      sns_publish = (\<lambda>req. None)\<rparr>"

text \<open>The same platform when the role cannot be assumed.\<close>

definition denied_aws :: aws where
  "denied_aws = (sample_aws ''https://zodiac.rockarch.org/api'')
     \<lparr>role_client := (\<lambda>arn resource. Some (Raised ''ClientError''))\<rparr>"

text \<open>
  An event as the remote API stores it, and a world whose API answers every request
  with status 200 and every GET with the given list of events; nothing has been sent,
  published or logged yet.
\<close>

definition stored_event :: "string \<Rightarrow> string \<Rightarrow> string \<Rightarrow> pyval" where
  "stored_event service outcome identifier = PDict
     [(''outcome'', PStr outcome), (''service'', PStr service),
      (''package'', PStr ''20f8da26e268418ead4aa2365f816a08''),
      (''identifier'', PStr identifier)]"

definition zodiac :: "pyval list \<Rightarrow> world" where
  "zodiac events =
     \<lparr>http_server = (\<lambda>history req. Inr \<lparr>status_code = 200,
                        resp_body = (if req_method req = GET then PList events else PNone)\<rparr>),
      requests = [],
      published = [],
      info_log = [],
      uuid4 = (\<lambda>n. ''uuid-'' @ nat_str n),
      uuids_drawn = 0\<rparr>"

section \<open>Rules for running the computations\<close>

lemma bindE_simps [simp]:
  "bindE (Inl e) f = Inl e"
  "bindE (Inr x) f = f x"
  by (simp_all add: bindE_def)

lemma bnd_lift [simp]:
  "bnd (lift r) f w = (case r of Inl e \<Rightarrow> (Inl e, w) | Inr x \<Rightarrow> f x w)"
  by (simp add: bnd_def lift_def split: sum.splits)

lemma lift_apply [simp]: "lift r w = (r, w)"
  by (simp add: lift_def)

lemma bnd_assoc: "bnd (bnd m f) g = bnd m (\<lambda>x. bnd (f x) g)"
  by (auto simp add: bnd_def fun_eq_iff split: prod.splits sum.splits)

lemma bnd_ret [simp]: "bnd (ret x) f w = f x w"
  by (simp add: bnd_def ret_def)

lemma ret_apply [simp]: "ret x w = (Inr x, w)"
  by (simp add: ret_def)

lemma raise_apply [simp]: "raise e w = (Inl e, w)"
  by (simp add: raise_def)

lemma info_apply [simp]: "info msg w = (Inr (), w\<lparr>info_log := info_log w @ [msg]\<rparr>)"
  by (simp add: info_def)

lemma bnd_info [simp]: "bnd (info msg) f w = f () (w\<lparr>info_log := info_log w @ [msg]\<rparr>)"
  by (simp add: bnd_def info_def)

lemma bnd_publish [simp]:
  "bnd (publish a req) f w =
     (case sns_publish a req of
        Some e \<Rightarrow> (Inl e, w\<lparr>published := published w @ [req]\<rparr>)
      | None \<Rightarrow> f () (w\<lparr>published := published w @ [req]\<rparr>))"
  by (simp add: bnd_def publish_def split: option.splits)

lemma bnd_construct_event_id [simp]:
  "bnd construct_event_id f w =
     f (uuid4 w (uuids_drawn w)) (w\<lparr>uuids_drawn := Suc (uuids_drawn w)\<rparr>)"
  by (simp add: bnd_def construct_event_id_def)

lemma bnd_mock_http [simp]:
  "bnd (mock_http return_value url meth data) f w =
     f return_value (w\<lparr>requests := requests w @
                         [\<lparr>req_method = meth, req_url = url, req_json = data\<rparr>]\<rparr>)"
  by (simp add: bnd_def mock_http_def)

section \<open>The request for a package's events\<close>

text \<open>
  \<open>matching_events\<close> calls \<open>send_http_request\<close> with a URL and a method and nothing
  else. The call raises, whatever the package, the service and the remote API, and
  every caller of \<open>matching_events\<close> ends there.
\<close>

lemma send_http_request_two_arguments:
  "send_http_request url meth None w = (Inl TypeError, w)"
  by (simp add: send_http_request_def)

lemma send_http_request_value:
  "fst (send_http_request url meth data w) = Inr v \<Longrightarrow> v = PNone"
  by (auto simp add: send_http_request_def Let_def split: option.splits sum.splits if_splits)

lemma matching_events_raises:
  "matching_events package_id service_name baseurl outcome w = (Inl TypeError, w)"
  by (simp add: matching_events_def matching_events_via_def bnd_def
        send_http_request_two_arguments)

lemma bnd_matching_events:
  "bnd (matching_events_via send_http_request package_id service_name baseurl outcome) f w =
     (Inl TypeError, w)"
  using matching_events_raises [of package_id service_name baseurl outcome w]
  by (simp add: bnd_def matching_events_def)

lemma update_events_raises:
  "\<exists>e. update_events attributes config w = (Inl e, w)"
  by (simp add: update_events_def update_events_via_def bnd_matching_events split: sum.splits)

lemma get_config_returns:
  "get_config a path = Inr (PDict (snd (get_config_try a path)))"
  by (simp add: get_config_def split: prod.splits option.splits)

lemma lambda_handler_raises:
  "\<exists>e. lambda_handler loads a event w =
         (Inl e, w\<lparr>info_log := info_log w @ [''Message received.'']\<rparr>)"
  by (simp add: lambda_handler_def lambda_handler_via_def get_config_returns
        bnd_matching_events split: sum.splits)

section \<open>get_config\<close>

text \<open>
  \<open>split("/")\<close> never returns an empty list, and the element at position
  \<open>len - 1\<close> is the final segment of the name.
\<close>

lemma str_split_not_Nil [simp]: "str_split s \<noteq> []"
  by (induction s) (auto split: list.splits)

lemma str_split_no_slash: "CHR ''/'' \<notin> set s \<Longrightarrow> str_split s = [s]"
  by (induction s) auto

lemma last_segment_Cons:
  "last_segment (c # cs) = (if CHR ''/'' \<in> set cs then last_segment cs
                            else if c = CHR ''/'' then cs else c # cs)"
  by (auto simp add: last_segment_def takeWhile_append takeWhile_eq_all_conv [THEN iffD2])

lemma tl_str_split_Nil: "tl (str_split s) = [] \<longleftrightarrow> CHR ''/'' \<notin> set s"
  by (induction s) (auto simp add: str_split_no_slash split: list.splits)

lemma last_str_split: "last (str_split s) = last_segment s"
proof (induction s)
  case Nil
  show ?case by (simp add: last_segment_def)
next
  case (Cons c cs)
  show ?case
  proof (cases "CHR ''/'' \<in> set cs")
    case True
    then have "tl (str_split cs) \<noteq> []" by (simp add: tl_str_split_Nil)
    with Cons True show ?thesis
      by (cases "str_split cs") (auto simp add: last_segment_Cons)
  next
    case False
    then show ?thesis
      by (simp add: last_segment_Cons str_split_no_slash)
  qed
qed

lemma param_entry_well_formed:
  assumes "dict_get param ''Name'' PNone = Inr (PStr name)"
      and "dict_get param ''Value'' PNone = Inr v"
  shows "param_entry param = Inr (last_segment name, v)"
  using assms by (simp add: param_entry_def last_str_split)

lemma load_params_prefix:
  assumes "list_all2 (\<lambda>param nv. dict_get param ''Name'' PNone = Inr (PStr (fst nv))
                                 \<and> dict_get param ''Value'' PNone = Inr (snd nv)) params stored"
      and "case rest of [] \<Rightarrow> True | param # _ \<Rightarrow> isl (param_entry param)"
  shows "map_of (snd (load_params (params @ rest) configuration)) =
           map_of configuration ++ map_of (rev (map (\<lambda>nv. (last_segment (fst nv), snd nv)) stored))"
  using assms
proof (induction params stored arbitrary: configuration rule: list_all2_induct)
  case Nil
  then show ?case by (cases rest) (auto simp add: isl_def)
next
  case (Cons param params nv stored)
  then show ?case
    by (simp add: param_entry_well_formed update_conv' map_add_upd_left [symmetric] del: map_add_upd_left)
qed

text \<open>
  C9. \<open>get_config\<close> never raises, whatever the platform answers. When the client is
  refused, when the Parameter Store raises or when its answer cannot be iterated, the
  result is the empty dictionary. When the loop raises at some parameter (or runs to the
  end), the result holds what the parameters before it stored: the keys are the final
  segments of their names and the values are their values, a later parameter winning
  over an earlier one with the same final segment.
\<close>

theorem get_config_never_raises:
  "(\<exists>configuration. get_config a path = Inr (PDict configuration))
   \<and> (get_client_with_role a ''ssm'' = Inl e \<longrightarrow> get_config a path = Inr (PDict []))
   \<and> (parameters_by_path a path = Inl e \<longrightarrow> get_config a path = Inr (PDict []))
   \<and> (bindE (parameters_by_path a path)
          (\<lambda>response. bindE (dict_get response ''Parameters'' (PList [])) py_iter) = Inl e \<longrightarrow>
        get_config a path = Inr (PDict []))
   \<and> (get_client_with_role a ''ssm'' = Inr client
        \<and> parameters_by_path a path = Inr response
        \<and> bindE (dict_get response ''Parameters'' (PList [])) py_iter = Inr (params @ rest)
        \<and> list_all2 (\<lambda>param nv. dict_get param ''Name'' PNone = Inr (PStr (fst nv))
                                 \<and> dict_get param ''Value'' PNone = Inr (snd nv)) params stored
        \<and> (case rest of [] \<Rightarrow> True | param # _ \<Rightarrow> isl (param_entry param)) \<longrightarrow>
        (\<exists>configuration. get_config a path = Inr (PDict configuration)
           \<and> map_of configuration =
               map_of (rev (map (\<lambda>nv. (last_segment (fst nv), snd nv)) stored))))"
proof (intro conjI impI)
  show "\<exists>configuration. get_config a path = Inr (PDict configuration)"
    by (simp add: get_config_returns)
  show "get_config a path = Inr (PDict [])" if "get_client_with_role a ''ssm'' = Inl e"
    using that by (simp add: get_config_returns get_config_try_def)
  show "get_config a path = Inr (PDict [])" if "parameters_by_path a path = Inl e"
    using that by (simp add: get_config_returns get_config_try_def split: sum.splits)
  show "get_config a path = Inr (PDict [])"
    if "bindE (parameters_by_path a path)
          (\<lambda>response. bindE (dict_get response ''Parameters'' (PList [])) py_iter) = Inl e"
    using that by (auto simp add: get_config_returns get_config_try_def bindE_def split: sum.splits)
  show "\<exists>configuration. get_config a path = Inr (PDict configuration)
           \<and> map_of configuration =
               map_of (rev (map (\<lambda>nv. (last_segment (fst nv), snd nv)) stored))"
    if h: "get_client_with_role a ''ssm'' = Inr client
        \<and> parameters_by_path a path = Inr response
        \<and> bindE (dict_get response ''Parameters'' (PList [])) py_iter = Inr (params @ rest)
        \<and> list_all2 (\<lambda>param nv. dict_get param ''Name'' PNone = Inr (PStr (fst nv))
                                 \<and> dict_get param ''Value'' PNone = Inr (snd nv)) params stored
        \<and> (case rest of [] \<Rightarrow> True | param # _ \<Rightarrow> isl (param_entry param))"
  proof -
    have "get_config_try a path = load_params (params @ rest) []"
      using h by (simp add: get_config_try_def)
    moreover have "map_of (snd (load_params (params @ rest) [])) =
        map_of [] ++ map_of (rev (map (\<lambda>nv. (last_segment (fst nv), snd nv)) stored))"
      using h by (intro load_params_prefix) simp_all
    ultimately show ?thesis
      by (simp add: get_config_returns)
  qed
qed

text \<open>
  The theorem at work: a refused role, a failing store, an answer without a list, a
  parameter without a name after one parameter was stored, and the two parameters
  \<open>foo\<close> and \<open>baz\<close> of the test-suite.
\<close>

theorem get_config_never_raises_witness:
  "get_config denied_aws ''/dev/digitized_av_trigger'' = Inr (PDict [])
   \<and> get_config ((sample_aws ''https://zodiac.rockarch.org/api'')
         \<lparr>parameters_by_path := (\<lambda>path. Inl (Raised ''ClientError''))\<rparr>)
         ''/dev/digitized_av_trigger'' = Inr (PDict [])
   \<and> get_config ((sample_aws ''https://zodiac.rockarch.org/api'')
         \<lparr>parameters_by_path := (\<lambda>path. Inr (PDict [(''Parameters'', PNone)]))\<rparr>)
         ''/dev/digitized_av_trigger'' = Inr (PDict [])
   \<and> (\<exists>configuration.
         get_config ((sample_aws ''https://zodiac.rockarch.org/api'')
           \<lparr>parameters_by_path := (\<lambda>path. Inr (PDict [(''Parameters'', PList
              [PDict [(''Name'', PStr ''/dev/digitized_av_trigger/foo''), (''Value'', PStr ''bar'')],
               PDict [(''Value'', PStr ''lost'')],
               PDict [(''Name'', PStr ''/dev/digitized_av_trigger/baz''), (''Value'', PStr ''buzz'')]])]))\<rparr>)
           ''/dev/digitized_av_trigger'' = Inr (PDict configuration)
         \<and> map_of configuration = map_of [(''foo'', PStr ''bar'')])
   \<and> (\<exists>configuration.
         get_config ((sample_aws ''https://zodiac.rockarch.org/api'')
           \<lparr>parameters_by_path := (\<lambda>path. Inr (PDict [(''Parameters'', PList
              [PDict [(''Name'', PStr ''/dev/digitized_av_trigger/foo''), (''Value'', PStr ''bar'')],
               PDict [(''Name'', PStr ''/dev/digitized_av_trigger/baz''), (''Value'', PStr ''buzz'')]])]))\<rparr>)
           ''/dev/digitized_av_trigger'' = Inr (PDict configuration)
         \<and> map_of configuration = map_of [(''baz'', PStr ''buzz''), (''foo'', PStr ''bar'')])"
  using get_config_never_raises
          [of denied_aws "''/dev/digitized_av_trigger''" "Raised ''ClientError''"]
        get_config_never_raises
          [of "(sample_aws ''https://zodiac.rockarch.org/api'')
                 \<lparr>parameters_by_path := (\<lambda>path. Inl (Raised ''ClientError''))\<rparr>"
              "''/dev/digitized_av_trigger''" "Raised ''ClientError''"]
        get_config_never_raises
          [of "(sample_aws ''https://zodiac.rockarch.org/api'')
                 \<lparr>parameters_by_path := (\<lambda>path. Inr (PDict [(''Parameters'', PNone)]))\<rparr>"
              "''/dev/digitized_av_trigger''" TypeError]
        get_config_never_raises
          [of "(sample_aws ''https://zodiac.rockarch.org/api'')
                 \<lparr>parameters_by_path := (\<lambda>path. Inr (PDict [(''Parameters'', PList
              [PDict [(''Name'', PStr ''/dev/digitized_av_trigger/foo''), (''Value'', PStr ''bar'')],
               PDict [(''Value'', PStr ''lost'')],
               PDict [(''Name'', PStr ''/dev/digitized_av_trigger/baz''), (''Value'', PStr ''buzz'')]])]))\<rparr>"
              "''/dev/digitized_av_trigger''" _ "''ssm''"
              "PDict [(''Parameters'', PList
              [PDict [(''Name'', PStr ''/dev/digitized_av_trigger/foo''), (''Value'', PStr ''bar'')],
               PDict [(''Value'', PStr ''lost'')],
               PDict [(''Name'', PStr ''/dev/digitized_av_trigger/baz''), (''Value'', PStr ''buzz'')]])]"
              "[PDict [(''Name'', PStr ''/dev/digitized_av_trigger/foo''), (''Value'', PStr ''bar'')]]"
              "[PDict [(''Value'', PStr ''lost'')],
               PDict [(''Name'', PStr ''/dev/digitized_av_trigger/baz''), (''Value'', PStr ''buzz'')]]"
              "[(''/dev/digitized_av_trigger/foo'', PStr ''bar'')]"]
        get_config_never_raises
          [of "(sample_aws ''https://zodiac.rockarch.org/api'')
                 \<lparr>parameters_by_path := (\<lambda>path. Inr (PDict [(''Parameters'', PList
              [PDict [(''Name'', PStr ''/dev/digitized_av_trigger/foo''), (''Value'', PStr ''bar'')],
               PDict [(''Name'', PStr ''/dev/digitized_av_trigger/baz''), (''Value'', PStr ''buzz'')]])]))\<rparr>"
              "''/dev/digitized_av_trigger''" _ "''ssm''"
              "PDict [(''Parameters'', PList
              [PDict [(''Name'', PStr ''/dev/digitized_av_trigger/foo''), (''Value'', PStr ''bar'')],
               PDict [(''Name'', PStr ''/dev/digitized_av_trigger/baz''), (''Value'', PStr ''buzz'')]])]"
              "[PDict [(''Name'', PStr ''/dev/digitized_av_trigger/foo''), (''Value'', PStr ''bar'')],
               PDict [(''Name'', PStr ''/dev/digitized_av_trigger/baz''), (''Value'', PStr ''buzz'')]]"
              "[]"
              "[(''/dev/digitized_av_trigger/foo'', PStr ''bar''),
                (''/dev/digitized_av_trigger/baz'', PStr ''buzz'')]"]
  by (simp add: get_client_with_role_def denied_aws_def sample_aws_def param_entry_def
        last_segment_def)


section \<open>send_http_request and matching_events\<close>

text \<open>
  C7. A successful GET made through \<open>send_http_request\<close> should give the caller the
  parsed JSON body of the response. The function has no \<open>return\<close> statement: for a
  remote API that answers 200 with a list of one event, the call with all three
  arguments sends the request and returns \<open>None\<close>, and the call with two arguments,
  the one \<open>matching_events\<close> makes, raises \<open>TypeError\<close> before anything is sent.
\<close>

theorem send_http_request_returns_None:
  "send_http_request ''https://zodiac.rockarch.org/api/packages/p1/events'' GET (Some PNone)
       (zodiac [stored_event ''fornax'' ''SUCCESS'' ''e1'']) =
     (Inr PNone,
      (zodiac [stored_event ''fornax'' ''SUCCESS'' ''e1''])
        \<lparr>requests := [\<lparr>req_method = GET,
                       req_url = ''https://zodiac.rockarch.org/api/packages/p1/events'',
                       req_json = None\<rparr>]\<rparr>)
   \<and> send_http_request ''https://zodiac.rockarch.org/api/packages/p1/events'' GET None
       (zodiac [stored_event ''fornax'' ''SUCCESS'' ''e1'']) =
     (Inl TypeError, zodiac [stored_event ''fornax'' ''SUCCESS'' ''e1''])"
  by (simp add: send_http_request_def zodiac_def)

text \<open>
  C8. \<open>matching_events\<close> should return, of the events the remote API lists for the
  package, those of the given service (and outcome). With one event of \<open>fornax\<close> and
  one of \<open>ursa_major\<close> stored, the call for \<open>fornax\<close> returns no list: it raises
  \<open>TypeError\<close> and sends nothing.
\<close>

theorem matching_events_returns_no_list:
  "matching_events (PStr ''package_id'') (PStr ''fornax'') ''baseurl'' PNone
       (zodiac [stored_event ''fornax'' ''SUCCESS'' ''e1'',
                stored_event ''ursa_major'' ''SUCCESS'' ''e2'']) =
     (Inl TypeError,
      zodiac [stored_event ''fornax'' ''SUCCESS'' ''e1'',
              stored_event ''ursa_major'' ''SUCCESS'' ''e2''])"
  by (simp add: matching_events_raises)

text \<open>
  The two comprehensions themselves select as intended. Under a binding of
  \<open>send_http_request\<close> that returns a list of events, each with a service and an
  outcome, the result is the events of the service, and of the outcome when the outcome
  given is true (an empty string counts as none given).
\<close>

lemma comprehension_filter:
  "list_all (\<lambda>e. cond e = Inr (keep e)) es \<Longrightarrow> comprehension cond es = Inr (filter keep es)"
  by (induction es) simp_all

lemma matching_events_via_list:
  assumes "http (baseurl @ ''/packages/'' @ py_str package_id @ ''/events'') GET None w =
             (Inr (PList es), w')"
      and "list_all (\<lambda>e. getitem e ''service'' = Inr (service_of e)
                        \<and> getitem e ''outcome'' = Inr (outcome_of e)) es"
  shows "matching_events_via http package_id service_name baseurl outcome w =
           (Inr (filter (\<lambda>e. py_eq (service_of e) service_name
                             \<and> (if truthy outcome then py_eq (outcome_of e) outcome else True)) es),
            w')"
proof -
  have "comprehension (service_and_outcome service_name outcome) es =
          Inr (filter (\<lambda>e. py_eq (service_of e) service_name \<and> py_eq (outcome_of e) outcome) es)"
    using assms(2)
    by (intro comprehension_filter) (auto simp add: list_all_iff service_and_outcome_def)
  moreover have "comprehension (service_only service_name) es =
          Inr (filter (\<lambda>e. py_eq (service_of e) service_name) es)"
    using assms(2)
    by (intro comprehension_filter) (auto simp add: list_all_iff service_only_def)
  ultimately show ?thesis
    using assms(1) by (simp add: matching_events_via_def bnd_def)
qed

section \<open>update_events\<close>

text \<open>
  C2. With no event or one event stored for the package and the service,
  \<open>update_events\<close> should send exactly one POST to the events URL. In both cases it
  raises \<open>TypeError\<close> at the lookup of the stored events and sends no request.
\<close>

theorem update_events_no_post:
  "update_events sample_attributes sample_config (zodiac []) = (Inl TypeError, zodiac [])
   \<and> update_events sample_attributes sample_config
         (zodiac [stored_event ''ursa_major'' ''FAILURE'' ''e1'']) =
       (Inl TypeError, zodiac [stored_event ''ursa_major'' ''FAILURE'' ''e1''])"
  by (simp add: update_events_def update_events_via_def bnd_matching_events
        sample_attributes_def sample_config_def)

text \<open>
  C3. With two events stored for the package and the service, \<open>update_events\<close> should
  raise the error that names the package and the number of events found. It sends no
  request, but the error it raises is the \<open>TypeError\<close> of the lookup: the
  \<open>raise Exception(...)\<close> statement is never reached.
\<close>

theorem update_events_two_events_TypeError:
  "update_events sample_attributes sample_config
       (zodiac [stored_event ''ursa_major'' ''FAILURE'' ''e1'',
                stored_event ''ursa_major'' ''SUCCESS'' ''e2'']) =
     (Inl TypeError,
      zodiac [stored_event ''ursa_major'' ''FAILURE'' ''e1'',
              stored_event ''ursa_major'' ''SUCCESS'' ''e2''])"
  by (simp add: update_events_def update_events_via_def bnd_matching_events
        sample_attributes_def sample_config_def)

text \<open>
  A second defect sits behind the first. \<open>update_events\<close> hands the attribute objects
  \<open>attributes['package_id']\<close> and \<open>attributes['service']\<close> to \<open>matching_events\<close>, not
  their \<open>Value\<close>s, so no stored event ever equals the service: even under a binding of
  \<open>send_http_request\<close> that returns the one stored event, the POST carries a fresh
  identifier and not the stored one.
\<close>

lemma update_events_via_ignores_stored_event:
  "last (requests (snd (update_events_via
       (mock_http (PList [stored_event ''ursa_major'' ''FAILURE'' ''e1'']))
       sample_attributes sample_config (zodiac [])))) =
     \<lparr>req_method = POST, req_url = ''https://zodiac.rockarch.org/api/events'',
      req_json = Some (PDict
        [(''outcome'', PStr ''SUCCESS''), (''service'', PStr ''ursa_major''),
         (''package'', PStr ''20f8da26e268418ead4aa2365f816a08''),
         (''identifier'', PStr ''uuid-0'')])\<rparr>"
  by (simp add: update_events_via_def matching_events_via_def service_only_def
        sample_attributes_def sample_config_def stored_event_def zodiac_def rstrip_def
        nat_str.simps digit_char_def bnd_assoc)

section \<open>send_next_service_message\<close>

text \<open>
  C5. For a service name \<open>s\<close>: when the map has no entry for \<open>s\<close>, the function
  publishes nothing, logs that there is no next service and returns normally. When the
  map sends \<open>s\<close> to \<open>n\<close>, the SNS client is obtained and the configuration holds
  \<open>SERVICE_START_SNS_TOPIC\<close>, exactly one publish call is made, to that topic, with the
  three attributes \<open>package_id\<close>, \<open>requested_status\<close> = \<open>START\<close> and \<open>service\<close> = \<open>n\<close>.
\<close>

theorem send_next_service_message_publish:
  "(map_of NEXT_SERVICE_MAP s = None \<longrightarrow>
      send_next_service_message a (PStr s) package_id config w =
        (Inr (), w\<lparr>info_log := info_log w @ [''No next service found for '' @ s]\<rparr>))
   \<and> (map_of NEXT_SERVICE_MAP s = Some n
        \<and> get_client_with_role a ''sns'' = Inr client
        \<and> getitem config ''SERVICE_START_SNS_TOPIC'' = Inr topic \<longrightarrow>
      published (snd (send_next_service_message a (PStr s) package_id config w)) =
        published w @
          [\<lparr>TopicArn = topic,
            Message = ''Start service '' @ n @ '' for package '' @ py_str package_id,
            MessageAttributes = PDict
              [(''package_id'',
                PDict [(''DataType'', PStr ''String''), (''StringValue'', package_id)]),
               (''requested_status'',
                PDict [(''DataType'', PStr ''String''), (''StringValue'', PStr ''START'')]),
               (''service'',
                PDict [(''DataType'', PStr ''String''), (''StringValue'', PStr n)])]\<rparr>])"
  by (simp add: send_next_service_message_def except_KeyError_def string_attribute_def
        split: option.splits)

text \<open>
  The test-suite's two calls: \<open>foo\<close> has no next service, \<open>ursa_major\<close> starts
  \<open>fornax\<close>.
\<close>

theorem send_next_service_message_publish_witness:
  "send_next_service_message (sample_aws ''https://zodiac.rockarch.org/api'') (PStr ''foo'')
       (PStr ''123456789'') sample_config (zodiac []) =
     (Inr (), (zodiac [])\<lparr>info_log := [''No next service found for foo'']\<rparr>)
   \<and> published (snd (send_next_service_message (sample_aws ''https://zodiac.rockarch.org/api'')
         (PStr ''ursa_major'') (PStr ''123456789'') sample_config (zodiac []))) =
       [\<lparr>TopicArn = PStr ''arn:aws:sns:us-east-1:123456789012:start_service'',
         Message = ''Start service fornax for package 123456789'',
         MessageAttributes = PDict
           [(''package_id'',
             PDict [(''DataType'', PStr ''String''), (''StringValue'', PStr ''123456789'')]),
            (''requested_status'',
             PDict [(''DataType'', PStr ''String''), (''StringValue'', PStr ''START'')]),
            (''service'',
             PDict [(''DataType'', PStr ''String''), (''StringValue'', PStr ''fornax'')])]\<rparr>]"
  using send_next_service_message_publish
          [of "''foo''" "sample_aws ''https://zodiac.rockarch.org/api''" "PStr ''123456789''"
              sample_config "zodiac []"]
        send_next_service_message_publish
          [of "''ursa_major''" "sample_aws ''https://zodiac.rockarch.org/api''" "PStr ''123456789''"
              sample_config "zodiac []" "''fornax''" "''sns''"
              "PStr ''arn:aws:sns:us-east-1:123456789012:start_service''"]
  by (simp add: NEXT_SERVICE_MAP_def get_client_with_role_def sample_aws_def sample_config_def
        zodiac_def)

text \<open>
  An entry in the map is not enough for a publish call: \<open>ursa_major\<close> has one, and
  nothing is published when the role is refused, nor when the configuration has no
  \<open>SERVICE_START_SNS_TOPIC\<close>.
\<close>

theorem send_next_service_message_no_publish:
  "map_of NEXT_SERVICE_MAP ''ursa_major'' = Some ''fornax''
   \<and> published (snd (send_next_service_message denied_aws (PStr ''ursa_major'')
         (PStr ''123456789'') sample_config (zodiac []))) = []
   \<and> published (snd (send_next_service_message (sample_aws ''https://zodiac.rockarch.org/api'')
         (PStr ''ursa_major'') (PStr ''123456789'')
         (PDict [(''ZODIAC_BASEURL'', PStr ''https://zodiac.rockarch.org/api'')]) (zodiac []))) = []"
  by (simp add: send_next_service_message_def except_KeyError_def NEXT_SERVICE_MAP_def
        get_client_with_role_def denied_aws_def sample_aws_def sample_config_def zodiac_def)

text \<open>
  C6. A failure of the publish step should leave the function as an exception. The
  lookup \<open>config['SERVICE_START_SNS_TOPIC']\<close> stands inside the \<open>try\<close> block, and its
  \<open>KeyError\<close> is caught by the handler meant for the map: for \<open>ursa_major\<close> and a
  configuration without the topic, the function logs that no next service was found
  (after logging that it starts \<open>fornax\<close>) and returns normally.
\<close>

theorem send_next_service_message_swallows_missing_topic:
  "send_next_service_message (sample_aws ''https://zodiac.rockarch.org/api'')
       (PStr ''ursa_major'') (PStr ''123456789'')
       (PDict [(''ZODIAC_BASEURL'', PStr ''https://zodiac.rockarch.org/api'')]) (zodiac []) =
     (Inr (), (zodiac [])\<lparr>info_log := [''Starting service fornax'',
                                        ''No next service found for ursa_major'']\<rparr>)"
  by (simp add: send_next_service_message_def except_KeyError_def NEXT_SERVICE_MAP_def
        get_client_with_role_def sample_aws_def zodiac_def)

text \<open>An error of the publish call itself does propagate, unless it is a \<open>KeyError\<close>.\<close>

lemma publish_failure_propagates:
  assumes "map_of NEXT_SERVICE_MAP s = Some n"
      and "get_client_with_role a ''sns'' = Inr client"
      and "getitem config ''SERVICE_START_SNS_TOPIC'' = Inr topic"
      and "sns_publish a
            \<lparr>TopicArn = topic,
             Message = ''Start service '' @ n @ '' for package '' @ py_str package_id,
             MessageAttributes = PDict
               [(''package_id'', string_attribute package_id),
                (''requested_status'', string_attribute (PStr ''START'')),
                (''service'', string_attribute (PStr n))]\<rparr> = Some e"
      and "e \<noteq> KeyError"
  shows "fst (send_next_service_message a (PStr s) package_id config w) = Inl e"
  using assms by (simp add: send_next_service_message_def except_KeyError_def)

section \<open>lambda_handler\<close>

lemma full_config_path_sample:
  "full_config_path (sample_aws base) = ''/dev/digitized_av_trigger''"
  by (simp add: full_config_path_def environ_get_def sample_aws_def)

lemma get_config_sample:
  "get_config (sample_aws base) ''/dev/digitized_av_trigger'' =
     Inr (PDict [(''ZODIAC_BASEURL'', PStr base),
                 (''SERVICE_START_SNS_TOPIC'',
                  PStr ''arn:aws:sns:us-east-1:123456789012:start_service'')])"
  by (simp add: get_config_def get_config_try_def get_client_with_role_def param_entry_def
        sample_aws_def)

text \<open>
  C1. When an event of the same package, service and outcome is already stored, the
  handler should log a duplicate and do nothing else. It makes no request and no publish
  call, but it does not complete either: the duplicate check raises \<open>TypeError\<close>, the
  invocation fails, and \<open>Duplicate event found\<close> is never logged.
\<close>

theorem lambda_handler_duplicate_raises:
  "lambda_handler sample_loads (sample_aws ''https://zodiac.rockarch.org/api'') sample_event
       (zodiac [stored_event ''ursa_major'' ''SUCCESS'' ''e1'']) =
     (Inl TypeError,
      (zodiac [stored_event ''ursa_major'' ''SUCCESS'' ''e1''])
        \<lparr>info_log := [''Message received.'']\<rparr>)"
  by (simp add: lambda_handler_def lambda_handler_via_def bnd_matching_events
        full_config_path_sample get_config_sample
        sample_event_def sample_attributes_def zodiac_def)

text \<open>
  C4. With no event stored and the outcome \<open>SUCCESS\<close>, the handler should call
  \<open>send_next_service_message\<close>. For the service \<open>ursa_major\<close>, which has a next
  service, nothing is published: the handler has raised \<open>TypeError\<close> at the duplicate
  check.
\<close>

theorem lambda_handler_success_no_trigger:
  "lambda_handler sample_loads (sample_aws ''https://zodiac.rockarch.org/api'') sample_event
       (zodiac []) =
     (Inl TypeError, (zodiac [])\<lparr>info_log := [''Message received.'']\<rparr>)
   \<and> published (snd (lambda_handler sample_loads (sample_aws ''https://zodiac.rockarch.org/api'')
         sample_event (zodiac []))) = []"
  by (simp add: lambda_handler_def lambda_handler_via_def bnd_matching_events
        full_config_path_sample get_config_sample
        sample_event_def sample_attributes_def zodiac_def)

section \<open>Trailing slashes of the base URL\<close>



lemma getitem_update:
  "getitem (PDict (AList.update k v c)) k' = (if k' = k then Inr v else getitem (PDict c) k')"
  by (simp add: update_conv')













end
